theory Spec2Isabelle
  imports Complex_Main "HOL-Library.AList"
begin

section \<open>Data model\<close>

text \<open>
  A parsed JSON value, as \<open>response.json()\<close> returns it. A number without fraction or
  exponent is a Python \<open>int\<close> (\<open>JInt\<close>), any other number a Python \<open>float\<close>, a finite
  double kept by its exact value (\<open>JFloat\<close>). A string is a list of characters (code
  points below 256), an object is an association list in the order of its keys. \<open>JNull\<close>
  is Python's \<open>None\<close>; inside a DataFrame it also stands for the missing value (\<open>NaN\<close>,
  \<open>NaT\<close>).
\<close>

datatype json =
    JNull
  | JBool bool
  | JInt int
  | JFloat rat
  | JStr string
  | JArr "json list"
  | JObj "(string \<times> json) list"

type_synonym record_ = "(string \<times> json) list"

text \<open>The exceptions the modelled code can raise.\<close>

datatype error =
    KeyError string
  | TypeError
  | AttributeError
  | ValueError
  | ReError

subsection \<open>Storage of a column\<close>

text \<open>
  \<open>float(n)\<close> for a Python \<open>int\<close>: the nearest double, ties to the even mantissa. An
  integer of at most 53 bits is kept; a longer one loses its low bits. (Integers of 1024
  bits and more, which overflow, do not reach this function: see \<open>float64_column\<close>.)
\<close>

fun bit_length :: "nat \<Rightarrow> nat" where
  "bit_length n = (if n = 0 then 0 else Suc (bit_length (n div 2)))"

declare bit_length.simps [simp del]

definition float_of_int :: "int \<Rightarrow> rat" where
  "float_of_int n =
     (let a = nat \<bar>n\<bar>;
          e = bit_length a - 53;
          q = a div 2 ^ e;
          r = a mod 2 ^ e;
          q' = (if 2 ^ e < 2 * r \<or> (2 ^ e = 2 * r \<and> odd q) then q + 1 else q)
      in of_int (sgn n) * of_nat (q' * 2 ^ e))"

text \<open>
  pandas gives every column one dtype. A column whose cells are all numbers or missing,
  with a float or a missing cell among them, is stored as \<open>float64\<close>, and its integers
  are converted to floats. That needs the integers to fit 64 bits: an integer below
  \<open>-2^63\<close> or from \<open>2^64\<close> on, or one from \<open>2^63\<close> on next to a negative one, keeps the
  column a column of Python objects. Every other column (\<open>int64\<close>, \<open>uint64\<close>, \<open>bool\<close>,
  \<open>object\<close>) keeps its cells as they are. (For an integer outside the range of \<open>int64\<close>
  beside an explicit \<open>None\<close>, pandas' inference goes by the order of the cells; the model
  does not follow it there.)
\<close>

definition float64_column :: "json list \<Rightarrow> bool" where
  "float64_column cells =
     ((\<forall>c \<in> set cells. case c of JNull \<Rightarrow> True | JFloat r \<Rightarrow> True
                         | JInt n \<Rightarrow> - (2 ^ 63) \<le> n \<and> n < 2 ^ 64 | _ \<Rightarrow> False)
      \<and> (\<exists>c \<in> set cells. case c of JNull \<Rightarrow> True | JFloat r \<Rightarrow> True | _ \<Rightarrow> False)
      \<and> \<not> ((\<exists>c \<in> set cells. case c of JInt n \<Rightarrow> 2 ^ 63 \<le> n | _ \<Rightarrow> False)
           \<and> (\<exists>c \<in> set cells. case c of JInt n \<Rightarrow> n < 0 | _ \<Rightarrow> False)))"

text \<open>The cell that a column with the given values stores for the value \<open>v\<close>.\<close>

definition stored :: "json list \<Rightarrow> json \<Rightarrow> json" where
  "stored cells v =
     (if float64_column cells
      then (case v of JInt n \<Rightarrow> JFloat (float_of_int n) | _ \<Rightarrow> v)
      else v)"

subsection \<open>DataFrames\<close>

text \<open>
  A pandas DataFrame with the default \<open>RangeIndex\<close>: its column labels and its rows, each
  row holding one cell per column. \<open>pd.DataFrame()\<close> is \<open>empty_frame\<close>.
\<close>

record frame =
  columns :: "string list"
  rows :: "json list list"

definition empty_frame :: frame where
  "empty_frame = \<lparr>columns = [], rows = []\<rparr>"

text \<open>\<open>df.empty\<close>: some axis has length 0.\<close>

definition df_empty :: "frame \<Rightarrow> bool" where
  "df_empty df = (columns df = [] \<or> rows df = [])"

text \<open>\<open>df[label]\<close> for a label that names one column: the cells of that column.\<close>

definition cell_of :: "record_ \<Rightarrow> string \<Rightarrow> json" where
  "cell_of d c = (case map_of d c of None \<Rightarrow> JNull | Some v \<Rightarrow> v)"

definition column_cells :: "frame \<Rightarrow> string \<Rightarrow> json list" where
  "column_cells df label = map (\<lambda>r. cell_of (zip (columns df) r) label) (rows df)"

text \<open>
  The labels of a list of dicts in the order of their first appearance, as
  \<open>pd.DataFrame(list_of_dicts)\<close> collects them.
\<close>

fun unique_labels :: "string list \<Rightarrow> string list" where
  "unique_labels [] = []"
| "unique_labels (k # ks) = k # unique_labels (removeAll k ks)"

text \<open>
  \<open>pd.DataFrame(data)\<close> for a list of dicts: one row per dict; a dict without a label
  (\<open>cell_of\<close>) has the missing value there, and every column stores its values by its
  dtype. \<open>frame_rows\<close> gives the rows under a list of labels.
\<close>

definition column_of :: "record_ list \<Rightarrow> string \<Rightarrow> json list" where
  "column_of data c = map (\<lambda>d. cell_of d c) data"

definition frame_rows :: "string list \<Rightarrow> record_ list \<Rightarrow> json list list" where
  "frame_rows cols data =
     map (\<lambda>d. map (\<lambda>c. stored (column_of data c) (cell_of d c)) cols) data"

definition DataFrame :: "record_ list \<Rightarrow> frame" where
  "DataFrame data =
     (let cols = unique_labels (concat (map (map fst) data))
      in \<lparr>columns = cols, rows = frame_rows cols data\<rparr>)"

section \<open>ine\_utils.py: descargar\_tabla\_ine\_json\<close>

subsection \<open>The Python operations it uses\<close>

text \<open>\<open>obj[key]\<close> with a string key: only a dict can be indexed by a string.\<close>

fun getitem :: "json \<Rightarrow> string \<Rightarrow> error + json" where
  "getitem (JObj kvs) k = (case map_of kvs k of None \<Rightarrow> Inl (KeyError k) | Some v \<Rightarrow> Inr v)"
| "getitem _ k = Inl TypeError"

text \<open>\<open>obj.get(key, default)\<close>: only a dict has the method.\<close>

fun dict_get :: "json \<Rightarrow> string \<Rightarrow> json \<Rightarrow> error + json" where
  "dict_get (JObj kvs) k d = Inr (case map_of kvs k of None \<Rightarrow> d | Some v \<Rightarrow> v)"
| "dict_get _ k d = Inl AttributeError"

text \<open>
  \<open>for x in obj\<close>: a list gives its elements, a dict its keys, a string its characters;
  \<open>None\<close>, a number and a bool are not iterable.
\<close>

fun iter :: "json \<Rightarrow> error + json list" where
  "iter (JArr xs) = Inr xs"
| "iter (JObj kvs) = Inr (map (\<lambda>kv. JStr (fst kv)) kvs)"
| "iter (JStr s) = Inr (map (\<lambda>c. JStr [c]) s)"
| "iter _ = Inl TypeError"

text \<open>
  \<open>str.isspace\<close> on the code points below 256: tab to carriage return, the four
  separators 28..31, the space, NEL (133) and the no-break space (160).
\<close>

definition isspace :: "char \<Rightarrow> bool" where
  "isspace c = ((of_char c :: nat) \<in> {9, 10, 11, 12, 13, 28, 29, 30, 31, 32, 133, 160})"

text \<open>\<open>s.strip()\<close> removes the leading and the trailing whitespace.\<close>

definition strip :: "string \<Rightarrow> string" where
  "strip s = rev (dropWhile isspace (rev (dropWhile isspace s)))"

fun str_strip :: "json \<Rightarrow> error + json" where
  "str_strip (JStr s) = Inr (JStr (strip s))"
| "str_strip _ = Inl AttributeError"

subsection \<open>The transform\<close>

text \<open>
  The dict literal of lines 22 to 28, its five values evaluated in the order written;
  the first one that raises ends the evaluation.
\<close>

definition fila :: "json \<Rightarrow> json \<Rightarrow> error + record_" where
  "fila serie d =
     (case getitem serie ''Nombre'' of Inl e \<Rightarrow> Inl e | Inr n \<Rightarrow>
      case str_strip n of Inl e \<Rightarrow> Inl e | Inr s \<Rightarrow>
      case getitem serie ''COD'' of Inl e \<Rightarrow> Inl e | Inr c \<Rightarrow>
      case getitem d ''FK_Periodo'' of Inl e \<Rightarrow> Inl e | Inr p \<Rightarrow>
      case getitem d ''Anyo'' of Inl e \<Rightarrow> Inl e | Inr a \<Rightarrow>
      case getitem d ''Valor'' of Inl e \<Rightarrow> Inl e | Inr v \<Rightarrow>
      Inr [(''serie'', s), (''codigo'', c), (''periodo'', p), (''anyo'', a), (''valor'', v)])"

text \<open>The inner loop (line 21): one appended row per element, until one raises.\<close>

fun filas_serie :: "json \<Rightarrow> json list \<Rightarrow> record_ list \<Rightarrow> error + record_ list" where
  "filas_serie serie [] filas = Inr filas"
| "filas_serie serie (d # ds) filas =
     (case fila serie d of
        Inl e \<Rightarrow> Inl e
      | Inr f \<Rightarrow> filas_serie serie ds (filas @ [f]))"

text \<open>The outer loop (line 20), with \<open>serie.get('Data', [])\<close> iterated by the inner one.\<close>

fun filas_datos :: "json list \<Rightarrow> record_ list \<Rightarrow> error + record_ list" where
  "filas_datos [] filas = Inr filas"
| "filas_datos (serie # rest) filas =
     (case dict_get serie ''Data'' (JArr []) of
        Inl e \<Rightarrow> Inl e
      | Inr dv \<Rightarrow>
          (case iter dv of
             Inl e \<Rightarrow> Inl e
           | Inr ds \<Rightarrow>
               (case filas_serie serie ds filas of
                  Inl e \<Rightarrow> Inl e
                | Inr filas' \<Rightarrow> filas_datos rest filas')))"

text \<open>
  Lines 19 to 30, from the parsed response \<open>datos\<close> on. The request itself (lines 6 to
  17) is the HTTP client's work and is not modelled.
\<close>

definition descargar_tabla_ine_json :: "json \<Rightarrow> error + frame" where
  "descargar_tabla_ine_json datos =
     (case iter datos of
        Inl e \<Rightarrow> Inl e
      | Inr series \<Rightarrow>
          (case filas_datos series [] of
             Inl e \<Rightarrow> Inl e
           | Inr filas \<Rightarrow> Inr (DataFrame filas)))"

subsection \<open>The rows the specification describes\<close>

text \<open>
  The specification's reading of the simpler variant, written without the loops: the
  field of a record (null where it is absent), the series name trimmed, the embedded
  observation sequence (empty where there is none), and the five cells of the row of one
  observation.
\<close>

definition campo :: "json \<Rightarrow> string \<Rightarrow> json" where
  "campo obj k = (case obj of JObj kvs \<Rightarrow> cell_of kvs k | _ \<Rightarrow> JNull)"

definition nombre_recortado :: "json \<Rightarrow> json" where
  "nombre_recortado serie = (case campo serie ''Nombre'' of JStr s \<Rightarrow> JStr (strip s) | v \<Rightarrow> v)"

definition observaciones :: "json \<Rightarrow> json list" where
  "observaciones serie =
     (case serie of
        JObj kvs \<Rightarrow> (case map_of kvs ''Data'' of Some (JArr ds) \<Rightarrow> ds | _ \<Rightarrow> [])
      | _ \<Rightarrow> [])"

definition fila_esperada :: "json \<Rightarrow> json \<Rightarrow> json list" where
  "fila_esperada serie d =
     [nombre_recortado serie, campo serie ''COD'', campo d ''FK_Periodo'', campo d ''Anyo'',
      campo d ''Valor'']"

text \<open>The rows of a response: those of its series in turn, each observation one row.\<close>

definition filas_esperadas :: "json list \<Rightarrow> json list list" where
  "filas_esperadas series =
     concat (map (\<lambda>serie. map (fila_esperada serie) (observaciones serie)) series)"

text \<open>
  The storage of a table given by its rows: every cell as its column stores it.
\<close>

definition almacenar :: "json list list \<Rightarrow> json list list" where
  "almacenar t =
     map (\<lambda>r. map (\<lambda>j. stored (map (\<lambda>r'. r' ! j) t) (r ! j)) [0..<length r]) t"

definition columnas_simples :: "string list" where
  "columnas_simples = [''serie'', ''codigo'', ''periodo'', ''anyo'', ''valor'']"

section \<open>ine\_cli.py: get\_datos\_tabla\<close>

subsection \<open>The response of DATOS\_TABLA\<close>

text \<open>
  A series record of the response: \<open>s_meta\<close> holds its fields other than \<open>Data\<close>, in the
  order of the JSON object, and \<open>s_data\<close> its embedded list of observation records,
  \<open>None\<close> where the record has no \<open>Data\<close> key. An observation record is a JSON object.
\<close>

record serie =
  s_meta :: record_
  s_data :: "record_ list option"

text \<open>The same record as the JSON value the helper script iterates over.\<close>

definition serie_json :: "serie \<Rightarrow> json" where
  "serie_json s =
     JObj (s_meta s @ (case s_data s of None \<Rightarrow> [] | Some os \<Rightarrow> [(''Data'', JArr (map JObj os))]))"

subsection \<open>The pandas operations it uses\<close>

text \<open>
  Line 56, \<open>pd.DataFrame(raw)\<close>: the columns of \<open>df_series\<close> are the keys of the records
  in the order of their first appearance; its rows under the labels other than \<open>Data\<close>
  are \<open>frame_rows\<close> of the records' other fields.
\<close>

definition serie_keys :: "serie \<Rightarrow> string list" where
  "serie_keys s = map fst (s_meta s) @ (case s_data s of None \<Rightarrow> [] | Some os \<Rightarrow> [''Data''])"

definition df_series_columns :: "serie list \<Rightarrow> string list" where
  "df_series_columns raw = unique_labels (concat (map serie_keys raw))"

text \<open>
  Line 57, \<open>df_series.explode("Data")\<close>: a row whose \<open>Data\<close> cell is a non-empty list
  is repeated once per element; a row whose cell is an empty list or is missing stays as
  one row with a missing cell. Each row of the result is the pair of the row's cells
  under the other columns and the exploded cell. Without a \<open>Data\<close> column explode raises
  \<open>KeyError\<close>.
\<close>

definition explode_row :: "json list \<Rightarrow> record_ list option \<Rightarrow> (json list \<times> record_ option) list" where
  "explode_row r data =
     (case data of
        None \<Rightarrow> [(r, None)]
      | Some [] \<Rightarrow> [(r, None)]
      | Some (d # ds) \<Rightarrow> map (\<lambda>x. (r, Some x)) (d # ds))"

definition explode :: "serie list \<Rightarrow> error + (json list \<times> record_ option) list" where
  "explode raw =
     (if ''Data'' \<in> set (df_series_columns raw)
      then Inr (concat (map2 explode_row
                  (frame_rows (filter (\<lambda>c. c \<noteq> ''Data'') (df_series_columns raw))
                     (map s_meta raw))
                  (map s_data raw)))
      else Inl (KeyError ''Data''))"

text \<open>
  Line 62, \<open>pd.json_normalize\<close> without a record path: every dict of the list is
  flattened, a nested dict giving the keys \<open>outer.inner\<close>, and the list of flat dicts
  becomes a DataFrame; an element that is no dict (the missing cell) gives the empty
  dict, a row of missing cells. Assignment to a dict key keeps the position of a key that
  is already there, as \<open>AList.update\<close> does.
\<close>

fun is_dict :: "json \<Rightarrow> bool" where
  "is_dict (JObj kvs) = True"
| "is_dict _ = False"

definition new_key :: "string \<Rightarrow> string \<Rightarrow> string" where
  "new_key key_string k = (if key_string = [] then k else key_string @ ''.'' @ k)"

fun normalise_json :: "json \<Rightarrow> string \<Rightarrow> record_ \<Rightarrow> record_" where
  "normalise_json (JObj kvs) key_string normalized_dict =
     fold (\<lambda>kv acc. normalise_json (snd kv) (new_key key_string (fst kv)) acc) kvs normalized_dict"
| "normalise_json v key_string normalized_dict = AList.update key_string v normalized_dict"

definition normalise_json_ordered :: "record_ \<Rightarrow> record_" where
  "normalise_json_ordered d =
     (let top_dict = filter (\<lambda>kv. \<not> is_dict (snd kv)) d;
          nested_dict = normalise_json (JObj (filter (\<lambda>kv. is_dict (snd kv)) d)) [] []
      in fold (\<lambda>kv acc. AList.update (fst kv) (snd kv) acc) nested_dict top_dict)"

definition simple_json_normalize :: "record_ option \<Rightarrow> record_" where
  "simple_json_normalize x = (case x of None \<Rightarrow> [] | Some d \<Rightarrow> normalise_json_ordered d)"

definition json_normalize :: "record_ option list \<Rightarrow> frame" where
  "json_normalize xs = DataFrame (map simple_json_normalize xs)"

text \<open>Line 64, \<open>pd.concat([a, b], axis=1)\<close> of two frames over the same \<open>RangeIndex\<close>.\<close>

definition concat_axis1 :: "frame \<Rightarrow> frame \<Rightarrow> frame" where
  "concat_axis1 a b =
     \<lparr>columns = columns a @ columns b, rows = map2 (\<lambda>r1 r2. r1 @ r2) (rows a) (rows b)\<rparr>"

text \<open>
  Lines 67 to 72. What \<open>pd.to_datetime(_, unit="ms", errors="coerce")\<close> and
  \<open>pd.to_numeric(_, errors="coerce")\<close> give for a cell that is not missing is pandas'
  parsing of dates and of floating-point numbers, which is taken as a parameter here: a
  converter receives the cells of the column and the cell to convert. A missing cell
  stays missing. When the label names two columns, \<open>df[label]\<close> is a DataFrame and the
  converter raises (\<open>to_datetime\<close> a \<open>ValueError\<close>, \<open>to_numeric\<close> a \<open>TypeError\<close>).
\<close>

definition coerce :: "(json \<Rightarrow> json) \<Rightarrow> json \<Rightarrow> json" where
  "coerce f x = (if x = JNull then JNull else f x)"

definition assign_converted ::
    "string \<Rightarrow> error \<Rightarrow> (json list \<Rightarrow> json \<Rightarrow> json) \<Rightarrow> frame \<Rightarrow> error + frame" where
  "assign_converted label err f df =
     (if label \<notin> set (columns df) then Inr df
      else if 1 < count_list (columns df) label then Inl err
      else Inr (df\<lparr>rows := map (\<lambda>r. map2 (\<lambda>l x. if l = label
                                                     then coerce (f (column_cells df label)) x
                                                     else x)
                                          (columns df) r) (rows df)\<rparr>))"

subsection \<open>The transform\<close>

text \<open>
  Lines 53 to 74, from the parsed response \<open>raw\<close> on; \<open>to_datetime\<close> and \<open>to_numeric\<close>
  are the two converters of pandas.
\<close>

definition get_datos_tabla ::
    "(json list \<Rightarrow> json \<Rightarrow> json) \<Rightarrow> (json list \<Rightarrow> json \<Rightarrow> json) \<Rightarrow> serie list
      \<Rightarrow> error + frame" where
  "get_datos_tabla to_datetime to_numeric raw =
     (if raw = [] then Inr empty_frame
      else
        (case explode raw of
           Inl e \<Rightarrow> Inl e
         | Inr df_long \<Rightarrow>
             (let cols_meta = filter (\<lambda>c. c \<noteq> ''Data'') (df_series_columns raw);
                  df_meta = \<lparr>columns = cols_meta, rows = map fst df_long\<rparr>;
                  df_values = json_normalize (map snd df_long);
                  df = concat_axis1 df_meta df_values
              in (case assign_converted ''Fecha'' ValueError to_datetime df of
                    Inl e \<Rightarrow> Inl e
                  | Inr df' \<Rightarrow> assign_converted ''Valor'' TypeError to_numeric df'))))"

section \<open>ine\_cli.py: the commands\<close>

subsection \<open>Column selection and the list endpoints\<close>

text \<open>
  \<open>df[labels]\<close> with a list of labels: \<open>KeyError\<close> when a label names no column;
  otherwise the columns under each label, in the order of the list.
\<close>

definition getitem_columns :: "frame \<Rightarrow> string list \<Rightarrow> error + frame" where
  "getitem_columns df labels =
     (case filter (\<lambda>l. l \<notin> set (columns df)) labels of
        l # ls \<Rightarrow> Inl (KeyError l)
      | [] \<Rightarrow>
          (let idx = concat (map (\<lambda>l. filter (\<lambda>i. columns df ! i = l)
                                            [0..<length (columns df)]) labels)
           in Inr \<lparr>columns = map (\<lambda>i. columns df ! i) idx,
                    rows = map (\<lambda>r. map (\<lambda>i. r ! i) idx) (rows df)\<rparr>))"

text \<open>
  An operation and a table as the list endpoints return them: an id, a code and a name;
  an id, a name and the first and last year of the period.
\<close>

record operacion =
  op_id :: int
  op_codigo :: string
  op_nombre :: string

definition operacion_dict :: "operacion \<Rightarrow> record_" where
  "operacion_dict x =
     [(''Id'', JInt (op_id x)), (''Codigo'', JStr (op_codigo x)),
      (''Nombre'', JStr (op_nombre x))]"

record tabla =
  t_id :: int
  t_nombre :: string
  t_ini :: int
  t_fin :: int

definition tabla_dict :: "tabla \<Rightarrow> record_" where
  "tabla_dict x =
     [(''Id'', JInt (t_id x)), (''Nombre'', JStr (t_nombre x)),
      (''Anyo_Periodo_Ini'', JInt (t_ini x)),
      (''Anyo_Periodo_Fin'', JInt (t_fin x))]"

text \<open>Lines 36 to 39, from the parsed response on.\<close>

definition get_operaciones :: "operacion list \<Rightarrow> error + frame" where
  "get_operaciones data =
     getitem_columns (DataFrame (map operacion_dict data)) [''Id'', ''Codigo'', ''Nombre'']"

text \<open>Lines 42 to 47, from the parsed response on.\<close>

definition get_tablas :: "tabla list \<Rightarrow> error + frame" where
  "get_tablas data =
     (if data = [] then Inr empty_frame
      else getitem_columns (DataFrame (map tabla_dict data))
             [''Id'', ''Nombre'', ''Anyo_Periodo_Ini'', ''Anyo_Periodo_Fin''])"

subsection \<open>What a command prints\<close>

text \<open>
  A command's standard output: a message line, the table of a frame (the rendering loops
  of lines 93 to 98 and 109 to 115 are not modelled further), or the summary of
  \<open>cmd_datos\<close>: the number of records, the column labels and the preview frame. The
  progress line, the count of unique series, the date range and the CSV export of
  \<open>cmd_datos\<close> are not modelled.
\<close>

datatype salida =
    Mensaje string
  | Tabla frame
  | Resumen nat "string list" frame

text \<open>
  Lines 85 to 87. \<open>Series.str.contains(pat, case=False, na=False)\<close> compiles \<open>pat\<close> as a
  regular expression that ignores case and searches every name with it; the compiled
  search is the parameter \<open>re_search\<close>, \<open>None\<close> for a pattern that does not compile. A
  cell that is no string gives \<open>False\<close>. The rows under a true mask are kept.
\<close>

definition str_contains ::
    "(string \<Rightarrow> (string \<Rightarrow> bool) option) \<Rightarrow> string \<Rightarrow> json list \<Rightarrow> error + bool list" where
  "str_contains re_search pat cells =
     (case re_search pat of
        None \<Rightarrow> Inl ReError
      | Some search \<Rightarrow> Inr (map (\<lambda>x. case x of JStr s \<Rightarrow> search s | _ \<Rightarrow> False) cells))"

definition boolean_mask :: "frame \<Rightarrow> bool list \<Rightarrow> frame" where
  "boolean_mask df keep = df\<lparr>rows := map fst (filter snd (zip (rows df) keep))\<rparr>"

text \<open>Lines 81 to 98; \<open>buscar\<close> is \<open>args.buscar\<close>, \<open>None\<close> without the option.\<close>

definition cmd_operaciones ::
    "(string \<Rightarrow> (string \<Rightarrow> bool) option) \<Rightarrow> string option \<Rightarrow> operacion list
      \<Rightarrow> error + salida list" where
  "cmd_operaciones re_search buscar data =
     (case get_operaciones data of
        Inl e \<Rightarrow> Inl e
      | Inr df \<Rightarrow>
          (case (case buscar of
                   None \<Rightarrow> Inr df
                 | Some pat \<Rightarrow>
                     if pat = [] then Inr df
                     else (case str_contains re_search pat (column_cells df ''Nombre'') of
                             Inl e \<Rightarrow> Inl e
                           | Inr keep \<Rightarrow> Inr (boolean_mask df keep))) of
             Inl e \<Rightarrow> Inl e
           | Inr df' \<Rightarrow>
               if df_empty df' then Inr [Mensaje ''No se encontraron operaciones.'']
               else Inr [Tabla df']))"

text \<open>Lines 101 to 115, without the operation id in the message.\<close>

definition cmd_tablas :: "tabla list \<Rightarrow> error + salida list" where
  "cmd_tablas data =
     (case get_tablas data of
        Inl e \<Rightarrow> Inl e
      | Inr df \<Rightarrow>
          if df_empty df then Inr [Mensaje ''No se encontraron tablas para la operacion.'']
          else Inr [Tabla df])"

text \<open>\<open>df.head()\<close>: the first five rows.\<close>

definition head :: "frame \<Rightarrow> frame" where
  "head df = df\<lparr>rows := take 5 (rows df)\<rparr>"

text \<open>Lines 140 and 141: the frame that the preview prints.\<close>

definition vista_previa :: "frame \<Rightarrow> error + frame" where
  "vista_previa df =
     (let cols_vista = filter (\<lambda>c. c \<in> set (columns df)) [''Nombre'', ''Fecha'', ''Valor'']
      in case getitem_columns df cols_vista of
           Inl e \<Rightarrow> Inl e
         | Inr v \<Rightarrow> Inr (head v))"

text \<open>Lines 118 to 141.\<close>

definition cmd_datos ::
    "(json list \<Rightarrow> json \<Rightarrow> json) \<Rightarrow> (json list \<Rightarrow> json \<Rightarrow> json) \<Rightarrow> serie list
      \<Rightarrow> error + salida list" where
  "cmd_datos to_datetime to_numeric raw =
     (case get_datos_tabla to_datetime to_numeric raw of
        Inl e \<Rightarrow> Inl e
      | Inr df \<Rightarrow>
          if df_empty df then Inr [Mensaje ''No se obtuvieron datos.'']
          else (case vista_previa df of
                  Inl e \<Rightarrow> Inl e
                | Inr v \<Rightarrow> Inr [Resumen (length (rows df)) (columns df) v]))"

text \<open>
  Lines 186 to 193: the exit status of the process. An exception of the command is
  printed to the error stream and the process exits with 1; otherwise it ends with 0.
\<close>

definition exit_status :: "error + salida list \<Rightarrow> nat" where
  "exit_status r = (case r of Inl e \<Rightarrow> 1 | Inr out \<Rightarrow> 0)"

section \<open>The flattening the specification describes\<close>

text \<open>
  The specification's algorithm, written as the two nested loops it describes: the
  observations of a series, each flattened, with one empty observation for a series that
  has none (which is what \<open>explode\<close> makes of it); the metadata columns (every field of a
  series but \<open>Data\<close>) and the observation columns; the row of one series and one
  observation as the columns store it; the conversion of a cell by the label of its
  column; the flattened row, and the block of rows of one series.
\<close>

definition observaciones_de :: "serie \<Rightarrow> record_ list" where
  "observaciones_de s = (case s_data s of None \<Rightarrow> [] | Some os \<Rightarrow> os)"

definition dicts_de :: "serie \<Rightarrow> record_ list" where
  "dicts_de s =
     (if observaciones_de s = [] then [[]]
      else map normalise_json_ordered (observaciones_de s))"

definition columnas_meta :: "serie list \<Rightarrow> string list" where
  "columnas_meta raw =
     unique_labels (filter (\<lambda>c. c \<noteq> ''Data'') (concat (map (\<lambda>s. map fst (s_meta s)) raw)))"

definition columnas_obs :: "serie list \<Rightarrow> string list" where
  "columnas_obs raw = unique_labels (concat (map (map fst) (concat (map dicts_de raw))))"

text \<open>
  The cell of a series under a metadata column and the cell of a flattened observation
  under an observation column, each stored by the dtype of its column: the metadata
  column holds one value per series, the observation column one per observation.
\<close>

definition celda_meta :: "serie list \<Rightarrow> serie \<Rightarrow> string \<Rightarrow> json" where
  "celda_meta raw s c = stored (column_of (map s_meta raw) c) (cell_of (s_meta s) c)"

definition celda_obs :: "serie list \<Rightarrow> record_ \<Rightarrow> string \<Rightarrow> json" where
  "celda_obs raw d c = stored (column_of (concat (map dicts_de raw)) c) (cell_of d c)"

definition fila_cruda :: "serie list \<Rightarrow> serie \<Rightarrow> record_ \<Rightarrow> json list" where
  "fila_cruda raw s d =
     map (celda_meta raw s) (columnas_meta raw) @ map (celda_obs raw d) (columnas_obs raw)"

definition tabla_cruda :: "serie list \<Rightarrow> frame" where
  "tabla_cruda raw =
     \<lparr>columns = columnas_meta raw @ columnas_obs raw,
      rows = concat (map (\<lambda>s. map (fila_cruda raw s) (dicts_de s)) raw)\<rparr>"

text \<open>
  The conversion of lines 67 to 72 by the label of the column: a converter is given the
  cells of its column in the table before conversion.
\<close>

definition convertir ::
    "(json list \<Rightarrow> json \<Rightarrow> json) \<Rightarrow> (json list \<Rightarrow> json \<Rightarrow> json) \<Rightarrow> serie list
      \<Rightarrow> string \<Rightarrow> json \<Rightarrow> json" where
  "convertir to_datetime to_numeric raw c x =
     (if c = ''Fecha'' then coerce (to_datetime (column_cells (tabla_cruda raw) ''Fecha'')) x
      else if c = ''Valor'' then coerce (to_numeric (column_cells (tabla_cruda raw) ''Valor'')) x
      else x)"

definition fila_aplanada ::
    "(json list \<Rightarrow> json \<Rightarrow> json) \<Rightarrow> (json list \<Rightarrow> json \<Rightarrow> json) \<Rightarrow> serie list
      \<Rightarrow> serie \<Rightarrow> record_ \<Rightarrow> json list" where
  "fila_aplanada to_datetime to_numeric raw s d =
     map (\<lambda>c. convertir to_datetime to_numeric raw c (celda_meta raw s c)) (columnas_meta raw)
     @ map (\<lambda>c. convertir to_datetime to_numeric raw c (celda_obs raw d c)) (columnas_obs raw)"

definition bloque ::
    "(json list \<Rightarrow> json \<Rightarrow> json) \<Rightarrow> (json list \<Rightarrow> json \<Rightarrow> json) \<Rightarrow> serie list
      \<Rightarrow> serie \<Rightarrow> json list list" where
  "bloque to_datetime to_numeric raw s =
     map (fila_aplanada to_datetime to_numeric raw s) (dicts_de s)"

text \<open>\<open>df.tail()\<close>: the last five rows, the rows the preview announces.\<close>

definition tail :: "frame \<Rightarrow> frame" where
  "tail df = df\<lparr>rows := drop (length (rows df) - 5) (rows df)\<rparr>"

section \<open>Properties of the storage\<close>

lemma bit_length_le: "a < 2 ^ k \<Longrightarrow> bit_length a \<le> k"
proof (induction k arbitrary: a)
  case 0
  then show ?case by (simp add: bit_length.simps)
next
  case (Suc k)
  then have "a div 2 < 2 ^ k" by simp
  from Suc.IH[OF this] show ?case by (subst bit_length.simps) simp
qed

lemma bit_length_gt: "2 ^ k \<le> a \<Longrightarrow> k < bit_length a"
proof (induction k arbitrary: a)
  case 0
  then show ?case by (subst bit_length.simps) simp
next
  case (Suc k)
  then have "2 ^ k \<le> a div 2" by simp
  moreover have "0 < a"
  proof (rule ccontr)
    assume "\<not> 0 < a"
    then show False using Suc.prems by simp
  qed
  ultimately show ?case using Suc.IH[of "a div 2"] by (subst bit_length.simps) simp
qed

lemma bit_length_eq: "2 ^ k \<le> a \<Longrightarrow> a < 2 ^ Suc k \<Longrightarrow> bit_length a = Suc k"
  using bit_length_le[of a "Suc k"] bit_length_gt[of k a] by simp

lemma float_of_int_exact: "\<bar>n\<bar> < 2 ^ 53 \<Longrightarrow> float_of_int n = of_int n"
proof -
  assume a: "\<bar>n\<bar> < 2 ^ 53"
  then have "nat \<bar>n\<bar> < 2 ^ 53" by (simp add: nat_less_iff)
  then have e: "bit_length (nat \<bar>n\<bar>) - 53 = 0" using bit_length_le by simp
  have "(of_int (sgn n) :: rat) * of_nat (nat \<bar>n\<bar>) = of_int (sgn n * \<bar>n\<bar>)" by simp
  also have "\<dots> = of_int n" by (simp add: sgn_mult_abs)
  finally show ?thesis by (simp add: float_of_int_def Let_def e)
qed

lemma stored_exact:
  "(\<And>n. v = JInt n \<Longrightarrow> \<not> float64_column cells) \<Longrightarrow> stored cells v = v"
  by (cases v) (auto simp: stored_def)

section \<open>Properties of descargar\_tabla\_ine\_json\<close>

lemma getitem_Inr: "getitem obj k = Inr v \<Longrightarrow> (\<exists>kvs. obj = JObj kvs) \<and> campo obj k = v"
  by (cases obj) (auto simp: campo_def cell_of_def split: option.splits)

lemma str_strip_Inr: "str_strip n = Inr s \<Longrightarrow> \<exists>t. n = JStr t \<and> s = JStr (strip t)"
  by (cases n) auto

lemma fila_Inr:
  assumes "fila serie d = Inr f"
  shows "(\<exists>kvs. d = JObj kvs) \<and> map fst f = columnas_simples \<and> map snd f = fila_esperada serie d"
proof -
  from assms obtain n s c p a v where
    n: "getitem serie ''Nombre'' = Inr n" and s: "str_strip n = Inr s" and
    c: "getitem serie ''COD'' = Inr c" and p: "getitem d ''FK_Periodo'' = Inr p" and
    a: "getitem d ''Anyo'' = Inr a" and v: "getitem d ''Valor'' = Inr v" and
    f: "f = [(''serie'', s), (''codigo'', c), (''periodo'', p), (''anyo'', a), (''valor'', v)]"
    unfolding fila_def by (auto split: sum.splits)
  from str_strip_Inr[OF s] obtain t where t: "n = JStr t" "s = JStr (strip t)" by blast
  have "nombre_recortado serie = s"
    using getitem_Inr[OF n] t by (simp add: nombre_recortado_def)
  then show ?thesis
    using getitem_Inr[OF c] getitem_Inr[OF p] getitem_Inr[OF a] getitem_Inr[OF v] f
    by (simp add: fila_esperada_def columnas_simples_def)
qed

lemma filas_serie_Inr:
  "filas_serie serie ds acc = Inr out \<Longrightarrow>
     (\<exists>fs. out = acc @ fs \<and> map (map fst) fs = map (\<lambda>_. columnas_simples) ds
           \<and> map (map snd) fs = map (fila_esperada serie) ds)
     \<and> (\<forall>d \<in> set ds. \<exists>kvs. d = JObj kvs)"
proof (induction ds arbitrary: acc)
  case Nil
  then show ?case by simp
next
  case (Cons d ds)
  from Cons.prems obtain f where f: "fila serie d = Inr f"
    and rest: "filas_serie serie ds (acc @ [f]) = Inr out"
    by (auto split: sum.splits)
  from Cons.IH[OF rest] obtain fs where
    fs: "out = (acc @ [f]) @ fs" "map (map fst) fs = map (\<lambda>_. columnas_simples) ds"
        "map (map snd) fs = map (fila_esperada serie) ds"
    and objs: "\<forall>d \<in> set ds. \<exists>kvs. d = JObj kvs" by blast
  have "out = acc @ (f # fs)" using fs(1) by simp
  moreover have "map (map fst) (f # fs) = map (\<lambda>_. columnas_simples) (d # ds)"
    using fila_Inr[OF f] fs(2) by simp
  moreover have "map (map snd) (f # fs) = map (fila_esperada serie) (d # ds)"
    using fila_Inr[OF f] fs(3) by simp
  ultimately show ?case using fila_Inr[OF f] objs by auto
qed

lemma iter_observaciones:
  assumes "dict_get serie ''Data'' (JArr []) = Inr dv" and "iter dv = Inr ds"
    and "\<forall>d \<in> set ds. \<exists>kvs. d = JObj kvs"
  shows "ds = observaciones serie"
proof -
  from assms(1) obtain kvs where kvs: "serie = JObj kvs"
    and dv: "dv = (case map_of kvs ''Data'' of None \<Rightarrow> JArr [] | Some v \<Rightarrow> v)"
    by (cases serie) auto
  show ?thesis
  proof (cases dv)
    case (JArr xs)
    then show ?thesis using assms(2) dv kvs
      by (auto simp: observaciones_def split: option.splits)
  next
    case (JObj m)
    then have "ds = []" using assms(2,3) by (cases m) auto
    then show ?thesis using JObj dv kvs
      by (auto simp: observaciones_def split: option.splits)
  next
    case (JStr s)
    then have "ds = []" using assms(2,3) by (cases s) auto
    then show ?thesis using JStr dv kvs
      by (auto simp: observaciones_def split: option.splits)
  qed (use assms(2) in auto)
qed

lemma filas_datos_Inr:
  "filas_datos series acc = Inr out \<Longrightarrow>
     \<exists>fs. out = acc @ fs
        \<and> map (map snd) fs
            = concat (map (\<lambda>serie. map (fila_esperada serie) (observaciones serie)) series)
        \<and> (\<forall>f \<in> set fs. map fst f = columnas_simples)"
proof (induction series arbitrary: acc)
  case Nil
  then show ?case by simp
next
  case (Cons serie rest)
  from Cons.prems obtain dv ds mid where
    dv: "dict_get serie ''Data'' (JArr []) = Inr dv" and ds: "iter dv = Inr ds" and
    mid: "filas_serie serie ds acc = Inr mid" and out: "filas_datos rest mid = Inr out"
    by (auto split: sum.splits)
  from filas_serie_Inr[OF mid] obtain fs1 where
    fs1: "mid = acc @ fs1" "map (map fst) fs1 = map (\<lambda>_. columnas_simples) ds"
         "map (map snd) fs1 = map (fila_esperada serie) ds"
    and objs: "\<forall>d \<in> set ds. \<exists>kvs. d = JObj kvs" by blast
  have obs: "ds = observaciones serie" by (rule iter_observaciones[OF dv ds objs])
  from Cons.IH[OF out] obtain fs2 where
    fs2: "out = mid @ fs2"
         "map (map snd) fs2
            = concat (map (\<lambda>serie. map (fila_esperada serie) (observaciones serie)) rest)"
         "\<forall>f \<in> set fs2. map fst f = columnas_simples" by blast
  have keys1: "\<forall>f \<in> set fs1. map fst f = columnas_simples"
  proof
    fix f assume "f \<in> set fs1"
    then have "map fst f \<in> set (map (map fst) fs1)" by simp
    then show "map fst f = columnas_simples" unfolding fs1(2) by auto
  qed
  show ?case
    using fs1(1,3) fs2 obs keys1 by (intro exI[of _ "fs1 @ fs2"]) auto
qed

lemma unique_labels_absorb:
  "distinct ks \<Longrightarrow> set rest \<subseteq> set ks \<Longrightarrow> unique_labels (ks @ rest) = ks"
proof (induction ks arbitrary: rest)
  case Nil
  then show ?case by simp
next
  case (Cons k ks)
  have "removeAll k (ks @ rest) = ks @ removeAll k rest"
    using Cons.prems(1) by simp
  moreover have "set (removeAll k rest) \<subseteq> set ks" using Cons.prems(2) by auto
  ultimately show ?case using Cons.IH[of "removeAll k rest"] Cons.prems(1) by simp
qed

lemma cells_of_own_keys: "distinct (map fst d) \<Longrightarrow> map (cell_of d) (map fst d) = map snd d"
  by (induction d) (auto simp: cell_of_def rev_image_eqI)

lemma nth_own_key:
  assumes "distinct (map fst d)" and "j < length d"
  shows "cell_of d (map fst d ! j) = map snd d ! j"
proof -
  have eq: "map (cell_of d) (map fst d) = map snd d"
    by (rule cells_of_own_keys[OF assms(1)])
  have "cell_of d (map fst d ! j) = map (cell_of d) (map fst d) ! j"
    using assms(2) by simp
  then show ?thesis unfolding eq .
qed

lemma DataFrame_uniform:
  assumes "\<forall>d \<in> set data. map fst d = ks" and "distinct ks"
  shows "DataFrame data
         = \<lparr>columns = (if data = [] then [] else ks), rows = almacenar (map (map snd) data)\<rparr>"
proof (cases data)
  case Nil
  then show ?thesis by (simp add: DataFrame_def frame_rows_def almacenar_def)
next
  case (Cons d0 ds)
  have "set (concat (map (map fst) ds)) \<subseteq> set ks" using assms(1) Cons by auto
  then have cols: "unique_labels (concat (map (map fst) data)) = ks"
    using unique_labels_absorb[OF assms(2)] assms(1) Cons by simp
  have cell: "cell_of d (ks ! j) = map snd d ! j" if "d \<in> set data" and "j < length ks" for d j
    using nth_own_key[of d j] assms that by auto
  have col: "map (\<lambda>r'. r' ! j) (map (map snd) data) = column_of data (ks ! j)"
    if "j < length ks" for j
    using cell that by (simp add: column_of_def)
  have len: "length d = length ks" if "d \<in> set data" for d
    using assms(1) that by (metis length_map)
  have "map (\<lambda>j. stored (map (\<lambda>r'. r' ! j) (map (map snd) data)) (map snd d ! j))
            [0..<length (map snd d)]
        = map (\<lambda>c. stored (column_of data c) (cell_of d c)) ks" if "d \<in> set data" for d
  proof -
    have "map (\<lambda>j. stored (map (\<lambda>r'. r' ! j) (map (map snd) data)) (map snd d ! j))
            [0..<length (map snd d)]
          = map (\<lambda>j. stored (column_of data (ks ! j)) (cell_of d (ks ! j))) [0..<length ks]"
      using col cell[OF that] len[OF that] by (intro map_cong) auto
    also have "\<dots> = map (\<lambda>c. stored (column_of data c) (cell_of d c))
                        (map (\<lambda>j. ks ! j) [0..<length ks])"
      by (simp add: comp_def)
    finally show ?thesis by (simp only: map_nth)
  qed
  then have "almacenar (map (map snd) data) = frame_rows ks data"
    unfolding almacenar_def frame_rows_def by (simp add: comp_def)
  then show ?thesis using cols Cons by (simp add: DataFrame_def)
qed

lemma almacenar_exact:
  assumes "\<forall>r \<in> set t. length r = n"
    and "\<forall>j<n. \<not> float64_column (map (\<lambda>r. r ! j) t)"
  shows "almacenar t = t"
proof -
  have "map (\<lambda>j. stored (map (\<lambda>r'. r' ! j) t) (r ! j)) [0..<length r] = r"
    if "r \<in> set t" for r
  proof -
    have "map (\<lambda>j. stored (map (\<lambda>r'. r' ! j) t) (r ! j)) [0..<length r]
          = map (\<lambda>j. r ! j) [0..<length r]"
      using assms that by (intro map_cong refl) (simp add: stored_def)
    then show ?thesis by (simp only: map_nth)
  qed
  then show ?thesis unfolding almacenar_def by (intro map_idI)
qed

text \<open>
  Claim C7, as the code has it. Whenever \<open>descargar_tabla_ine_json\<close> returns a table for
  a list of series, the table has one row per observation, in the order of the two loops,
  and each row holds exactly five cells: the series name with its surrounding whitespace
  removed, the series code, and the observation's period id, year and value, under the
  columns \<open>serie\<close>, \<open>codigo\<close>, \<open>periodo\<close>, \<open>anyo\<close>, \<open>valor\<close>, each cell as its column
  stores it: where no column is a \<open>float64\<close> column, the very values. No date is
  converted and no other field of the series is carried.
\<close>

theorem simple_variant_rows:
  assumes "descargar_tabla_ine_json (JArr series) = Inr df"
  shows "rows df = almacenar (filas_esperadas series)
       \<and> columns df = (if rows df = [] then [] else columnas_simples)
       \<and> ((\<forall>j<5. \<not> float64_column (map (\<lambda>r. r ! j) (filas_esperadas series)))
            \<longrightarrow> rows df = filas_esperadas series)"
proof -
  from assms obtain filas where filas: "filas_datos series [] = Inr filas"
    and df: "df = DataFrame filas"
    unfolding descargar_tabla_ine_json_def by (auto split: sum.splits)
  from filas_datos_Inr[OF filas] have
    vals: "map (map snd) filas = filas_esperadas series"
    and keys: "\<forall>f \<in> set filas. map fst f = columnas_simples"
    by (auto simp: filas_esperadas_def)
  have "distinct columnas_simples" by (simp add: columnas_simples_def)
  from DataFrame_uniform[OF keys this] df have
    cols: "columns df = (if filas = [] then [] else columnas_simples)"
    and rws: "rows df = almacenar (map (map snd) filas)" by simp_all
  have "(rows df = []) = (filas = [])" using rws by (simp add: almacenar_def)
  moreover have "\<forall>r \<in> set (filas_esperadas series). length r = 5"
    by (auto simp: filas_esperadas_def fila_esperada_def)
  ultimately show ?thesis using cols rws vals almacenar_exact[of "filas_esperadas series" 5]
    by simp
qed

theorem simple_variant_rows_witness:
  "descargar_tabla_ine_json
     (JArr [JObj [(''Nombre'', JStr ''  S1 ''), (''COD'', JStr ''C1''), (''Extra'', JInt 7),
                  (''Data'', JArr [JObj [(''FK_Periodo'', JInt 1), (''Anyo'', JInt 2024),
                                         (''Valor'', JStr ''10''), (''Fecha'', JInt 0)],
                                   JObj [(''FK_Periodo'', JInt 2), (''Anyo'', JInt 2024),
                                         (''Valor'', JNull)]])]])
     = Inr \<lparr>columns = [''serie'', ''codigo'', ''periodo'', ''anyo'', ''valor''],
              rows = [[JStr ''S1'', JStr ''C1'', JInt 1, JInt 2024, JStr ''10''],
                      [JStr ''S1'', JStr ''C1'', JInt 2, JInt 2024, JNull]]\<rparr>
   \<and> almacenar (filas_esperadas
         [JObj [(''Nombre'', JStr ''  S1 ''), (''COD'', JStr ''C1''), (''Extra'', JInt 7),
                (''Data'', JArr [JObj [(''FK_Periodo'', JInt 1), (''Anyo'', JInt 2024),
                                       (''Valor'', JStr ''10''), (''Fecha'', JInt 0)],
                                 JObj [(''FK_Periodo'', JInt 2), (''Anyo'', JInt 2024),
                                       (''Valor'', JNull)]])]])
       = [[JStr ''S1'', JStr ''C1'', JInt 1, JInt 2024, JStr ''10''],
          [JStr ''S1'', JStr ''C1'', JInt 2, JInt 2024, JNull]]"
proof -
  have h: "descargar_tabla_ine_json
     (JArr [JObj [(''Nombre'', JStr ''  S1 ''), (''COD'', JStr ''C1''), (''Extra'', JInt 7),
                  (''Data'', JArr [JObj [(''FK_Periodo'', JInt 1), (''Anyo'', JInt 2024),
                                         (''Valor'', JStr ''10''), (''Fecha'', JInt 0)],
                                   JObj [(''FK_Periodo'', JInt 2), (''Anyo'', JInt 2024),
                                         (''Valor'', JNull)]])]])
     = Inr \<lparr>columns = [''serie'', ''codigo'', ''periodo'', ''anyo'', ''valor''],
              rows = [[JStr ''S1'', JStr ''C1'', JInt 1, JInt 2024, JStr ''10''],
                      [JStr ''S1'', JStr ''C1'', JInt 2, JInt 2024, JNull]]\<rparr>"
    by (simp add: descargar_tabla_ine_json_def fila_def DataFrame_def frame_rows_def
        column_of_def stored_def float64_column_def cell_of_def strip_def isspace_def)
  from simple_variant_rows[OF h]
  have "rows \<lparr>columns = [''serie'', ''codigo'', ''periodo'', ''anyo'', ''valor''],
              rows = [[JStr ''S1'', JStr ''C1'', JInt 1, JInt 2024, JStr ''10''],
                      [JStr ''S1'', JStr ''C1'', JInt 2, JInt 2024, JNull]]\<rparr>
        = almacenar (filas_esperadas
         [JObj [(''Nombre'', JStr ''  S1 ''), (''COD'', JStr ''C1''), (''Extra'', JInt 7),
                (''Data'', JArr [JObj [(''FK_Periodo'', JInt 1), (''Anyo'', JInt 2024),
                                       (''Valor'', JStr ''10''), (''Fecha'', JInt 0)],
                                 JObj [(''FK_Periodo'', JInt 2), (''Anyo'', JInt 2024),
                                       (''Valor'', JNull)]])]])"
    by (rule conjunct1)
  then show ?thesis using h by simp
qed

text \<open>
  The claim as stated fails for the value: the column \<open>valor\<close> of a table in which one
  observation has the value 9007199254740993 and another the value 1.5 is a \<open>float64\<close>
  column, and the row of the first observation holds 9007199254740992.0, not the
  observation's value.
\<close>

theorem simple_variant_value_counterexample:
  "descargar_tabla_ine_json
     (JArr [JObj [(''Nombre'', JStr ''S1''), (''COD'', JStr ''C1''),
                  (''Data'', JArr [JObj [(''FK_Periodo'', JInt 1), (''Anyo'', JInt 2024),
                                         (''Valor'', JInt 9007199254740993)],
                                   JObj [(''FK_Periodo'', JInt 2), (''Anyo'', JInt 2024),
                                         (''Valor'', JFloat (3 / 2))]])]])
     = Inr \<lparr>columns = [''serie'', ''codigo'', ''periodo'', ''anyo'', ''valor''],
              rows = [[JStr ''S1'', JStr ''C1'', JInt 1, JInt 2024, JFloat 9007199254740992],
                      [JStr ''S1'', JStr ''C1'', JInt 2, JInt 2024, JFloat (3 / 2)]]\<rparr>
   \<and> campo (JObj [(''FK_Periodo'', JInt 1), (''Anyo'', JInt 2024),
                   (''Valor'', JInt 9007199254740993)]) ''Valor'' = JInt 9007199254740993"
proof -
  have "bit_length (nat \<bar>9007199254740993\<bar>) = Suc 53"
    by (rule bit_length_eq) simp_all
  then have "float_of_int 9007199254740993 = 9007199254740992"
    by (simp add: float_of_int_def Let_def)
  then show ?thesis
    by (simp add: descargar_tabla_ine_json_def fila_def DataFrame_def frame_rows_def
        column_of_def stored_def float64_column_def cell_of_def strip_def isspace_def
        campo_def)
qed

lemma filas_datos_skip:
  assumes "\<And>acc. filas_datos [x] acc = Inr acc"
  shows "filas_datos (pre @ x # post) acc = filas_datos (pre @ post) acc"
proof (induction pre arbitrary: acc)
  case Nil
  have "filas_datos (x # post) acc = filas_datos post acc"
    using assms[of acc] by (auto split: sum.splits)
  then show ?case by simp
next
  case (Cons s pre)
  then show ?case by (auto split: sum.splits)
qed

lemma strip_suffix:
  "dropWhile isspace s = strip s @ rev (takeWhile isspace (rev (dropWhile isspace s)))"
proof -
  define t where "t = dropWhile isspace s"
  have "rev (rev t) = rev (takeWhile isspace (rev t) @ dropWhile isspace (rev t))"
    by (simp only: takeWhile_dropWhile_id)
  then have "t = rev (dropWhile isspace (rev t)) @ rev (takeWhile isspace (rev t))"
    by (simp only: rev_rev_ident rev_append)
  then show ?thesis unfolding strip_def t_def .
qed

lemma strip_decomp:
  "\<exists>l r. s = l @ strip s @ r \<and> (\<forall>c \<in> set l. isspace c) \<and> (\<forall>c \<in> set r. isspace c)"
proof -
  let ?l = "takeWhile isspace s"
  let ?r = "rev (takeWhile isspace (rev (dropWhile isspace s)))"
  have "s = ?l @ dropWhile isspace s" by simp
  then have "s = ?l @ strip s @ ?r" using strip_suffix[of s] by simp
  moreover have "\<forall>c \<in> set ?l. isspace c" by (auto dest: set_takeWhileD)
  moreover have "\<forall>c \<in> set ?r. isspace c" by (auto dest: set_takeWhileD)
  ultimately show ?thesis by blast
qed

lemma strip_edges:
  assumes "strip s \<noteq> []"
  shows "\<not> isspace (hd (strip s)) \<and> \<not> isspace (last (strip s))"
proof -
  define t where "t = dropWhile isspace s"
  define u where "u = dropWhile isspace (rev t)"
  have su: "strip s = rev u" by (simp add: strip_def t_def u_def)
  then have u: "u \<noteq> []" using assms by simp
  then have "\<not> isspace (hd u)" unfolding u_def by (metis hd_dropWhile)
  then have l: "\<not> isspace (last (strip s))" using su u by (simp add: last_rev)
  have "t \<noteq> []" using u by (auto simp: u_def)
  then have ht: "\<not> isspace (hd t)" unfolding t_def by (metis hd_dropWhile)
  have "hd t = hd (strip s @ rev (takeWhile isspace (rev t)))"
    using strip_suffix[of s] by (simp only: t_def)
  then have "hd t = hd (strip s)" using assms by simp
  then show ?thesis using ht l by simp
qed

text \<open>
  Claim C10. A series record without a \<open>Data\<close> key leaves the outcome of
  \<open>descargar_tabla_ine_json\<close> as it is without that record: it adds no row and raises
  nothing, exactly as the same record with an empty \<open>Data\<close> list would.
\<close>

theorem missing_data:
  assumes "map_of kvs ''Data'' = None"
  shows "descargar_tabla_ine_json (JArr (pre @ JObj kvs # post))
           = descargar_tabla_ine_json (JArr (pre @ post))
       \<and> descargar_tabla_ine_json (JArr (pre @ JObj kvs # post))
           = descargar_tabla_ine_json (JArr (pre @ JObj (kvs @ [(''Data'', JArr [])]) # post))"
proof -
  have 1: "\<And>acc. filas_datos [JObj kvs] acc = Inr acc" using assms by simp
  have 2: "\<And>acc. filas_datos [JObj (kvs @ [(''Data'', JArr [])])] acc = Inr acc"
    using assms by (simp add: map_add_def)
  show ?thesis
    unfolding descargar_tabla_ine_json_def
    by (simp add: filas_datos_skip[OF 1] filas_datos_skip[OF 2])
qed

theorem missing_data_witness:
  "map_of [(''Nombre'', JStr ''S0'')] ''Data'' = None
   \<and> descargar_tabla_ine_json
         (JArr ([] @ JObj [(''Nombre'', JStr ''S0'')]
                # [JObj [(''Nombre'', JStr ''S1''), (''COD'', JStr ''C1''),
                         (''Data'', JArr [JObj [(''FK_Periodo'', JInt 1), (''Anyo'', JInt 2024),
                                                (''Valor'', JInt 3)]])]]))
       = Inr \<lparr>columns = [''serie'', ''codigo'', ''periodo'', ''anyo'', ''valor''],
                rows = [[JStr ''S1'', JStr ''C1'', JInt 1, JInt 2024, JInt 3]]\<rparr>"
proof -
  have h: "map_of [(''Nombre'', JStr ''S0'')] ''Data'' = None" by simp
  have "descargar_tabla_ine_json
         (JArr ([] @ [JObj [(''Nombre'', JStr ''S1''), (''COD'', JStr ''C1''),
                         (''Data'', JArr [JObj [(''FK_Periodo'', JInt 1), (''Anyo'', JInt 2024),
                                                (''Valor'', JInt 3)]])]]))
       = Inr \<lparr>columns = [''serie'', ''codigo'', ''periodo'', ''anyo'', ''valor''],
                rows = [[JStr ''S1'', JStr ''C1'', JInt 1, JInt 2024, JInt 3]]\<rparr>"
    by (simp add: descargar_tabla_ine_json_def fila_def DataFrame_def frame_rows_def
        column_of_def stored_def float64_column_def cell_of_def strip_def isspace_def)
  then show ?thesis using missing_data[OF h, of "[]"] h by simp
qed

section \<open>Properties of get\_datos\_tabla\<close>

subsection \<open>The frame it returns\<close>

lemma set_unique_labels: "set (unique_labels xs) = set xs"
  by (induction xs rule: unique_labels.induct) auto

lemma filter_removeAll: "filter P (removeAll k ks) = removeAll k (filter P ks)"
  by (induction ks) auto

lemma filter_unique_labels: "filter P (unique_labels xs) = unique_labels (filter P xs)"
proof (induction xs rule: unique_labels.induct)
  case 1
  then show ?case by simp
next
  case (2 k ks)
  show ?case
  proof (cases "P k")
    case True
    then show ?thesis using 2 by (simp add: filter_removeAll)
  next
    case False
    then have "removeAll k (filter P ks) = filter P ks" by (simp add: removeAll_id)
    then show ?thesis using 2 False by (simp add: filter_removeAll)
  qed
qed

lemma cols_meta_eq:
  "filter (\<lambda>c. c \<noteq> ''Data'') (df_series_columns raw) = columnas_meta raw"
proof -
  have "filter (\<lambda>c. c \<noteq> ''Data'') (concat (map serie_keys raw))
        = filter (\<lambda>c. c \<noteq> ''Data'') (concat (map (\<lambda>s. map fst (s_meta s)) raw))"
    by (induction raw) (auto simp: serie_keys_def split: option.splits)
  then show ?thesis
    by (simp add: df_series_columns_def columnas_meta_def filter_unique_labels)
qed

lemma map2_maps: "map2 f (map a xs) (map b xs) = map (\<lambda>x. f (a x) (b x)) xs"
  by (induction xs) auto

lemma map2_same: "map2 h cs (map f cs) = map (\<lambda>c. h c (f c)) cs"
  by (induction cs) auto

lemma map2_other_label:
  "length cs = length r \<Longrightarrow> label \<notin> set cs \<Longrightarrow>
     map2 (\<lambda>l x. if l = label then g x else x) cs r = r"
  by (induction cs r rule: list_induct2) auto

lemma map2_concat_blocks:
  "map2 f (concat (map (\<lambda>s. map (\<lambda>d. a s) (ds s)) raw)) (map g (concat (map ds raw)))
   = concat (map (\<lambda>s. map (\<lambda>d. f (a s) (g d)) (ds s)) raw)"
proof (induction raw)
  case Nil
  then show ?case by simp
next
  case (Cons s raw)
  have "map2 f (map (\<lambda>d. a s) (ds s)) (map g (ds s)) = map (\<lambda>d. f (a s) (g d)) (ds s)"
    by (rule map2_maps)
  then show ?case using Cons by (simp add: zip_append)
qed

lemma meta_rows:
  "frame_rows (columnas_meta raw) (map s_meta raw)
   = map (\<lambda>s. map (celda_meta raw s) (columnas_meta raw)) raw"
  by (simp add: frame_rows_def celda_meta_def comp_def)

lemma explode_row_dicts:
  "map (\<lambda>p. (fst p, simple_json_normalize (snd p))) (explode_row r (s_data s))
   = map (\<lambda>d. (r, d)) (dicts_de s)"
  by (auto simp: explode_row_def dicts_de_def observaciones_de_def simple_json_normalize_def
      split: option.splits list.splits)

lemma explode_pairs:
  assumes "explode raw = Inr L"
  shows "map (\<lambda>p. (fst p, simple_json_normalize (snd p))) L
         = concat (map (\<lambda>s. map (\<lambda>d. (map (celda_meta raw s) (columnas_meta raw), d))
                                  (dicts_de s)) raw)"
proof -
  have "L = concat (map (\<lambda>s. explode_row (map (celda_meta raw s) (columnas_meta raw))
                                (s_data s)) raw)"
    using assms
    by (auto simp: explode_def cols_meta_eq meta_rows map2_maps split: if_splits)
  then show ?thesis by (simp add: map_concat comp_def explode_row_dicts)
qed

lemma explode_meta:
  assumes "explode raw = Inr L"
  shows "map fst L
         = concat (map (\<lambda>s. map (\<lambda>d. map (celda_meta raw s) (columnas_meta raw))
                                  (dicts_de s)) raw)"
proof -
  have "map fst L = map fst (map (\<lambda>p. (fst p, simple_json_normalize (snd p))) L)"
    by (simp add: comp_def)
  then show ?thesis unfolding explode_pairs[OF assms] by (simp add: map_concat comp_def)
qed

lemma explode_values:
  assumes "explode raw = Inr L"
  shows "map simple_json_normalize (map snd L) = concat (map dicts_de raw)"
proof -
  have "map simple_json_normalize (map snd L)
        = map snd (map (\<lambda>p. (fst p, simple_json_normalize (snd p))) L)"
    by (simp add: comp_def)
  then show ?thesis unfolding explode_pairs[OF assms] by (simp add: map_concat comp_def)
qed

lemma tabla_cruda_built:
  assumes "explode raw = Inr L"
  shows "concat_axis1 \<lparr>columns = columnas_meta raw, rows = map fst L\<rparr>
           (json_normalize (map snd L)) = tabla_cruda raw"
proof -
  have vals: "json_normalize (map snd L)
              = \<lparr>columns = columnas_obs raw,
                  rows = map (\<lambda>d. map (celda_obs raw d) (columnas_obs raw))
                           (concat (map dicts_de raw))\<rparr>"
  proof -
    have "json_normalize (map snd L) = DataFrame (concat (map dicts_de raw))"
      by (simp only: json_normalize_def explode_values[OF assms])
    then show ?thesis
      by (simp add: DataFrame_def Let_def columnas_obs_def frame_rows_def celda_obs_def)
  qed
  show ?thesis
    unfolding vals explode_meta[OF assms]
    by (simp add: concat_axis1_def tabla_cruda_def fila_cruda_def[abs_def] map2_concat_blocks)
qed

lemma cell_of_zip_map2:
  "cell_of (zip cs (map2 h cs r)) c
   = (case map_of (zip cs r) c of None \<Rightarrow> JNull | Some x \<Rightarrow> h c x)"
proof (induction cs arbitrary: r)
  case Nil
  then show ?case by (simp add: cell_of_def)
next
  case (Cons k ks)
  then show ?case by (cases r) (auto simp: cell_of_def)
qed

lemma assign_converted_Inr:
  assumes "assign_converted label err f df = Inr df'"
    and "\<forall>r \<in> set (rows df). length r = length (columns df)"
  shows "columns df' = columns df
       \<and> rows df' = map (\<lambda>r. map2 (\<lambda>l x. if l = label
                                               then coerce (f (column_cells df label)) x
                                               else x) (columns df) r)
                        (rows df)"
proof (cases "label \<in> set (columns df)")
  case True
  then show ?thesis using assms(1) by (auto simp: assign_converted_def split: if_splits)
next
  case False
  have "map (\<lambda>r. map2 (\<lambda>l x. if l = label then coerce (f (column_cells df label)) x else x)
                 (columns df) r) (rows df) = map (\<lambda>r. r) (rows df)"
    using assms(2) False by (intro map_cong refl map2_other_label) auto
  then show ?thesis using assms(1) False by (auto simp: assign_converted_def)
qed

lemma assign_converted_other:
  assumes "assign_converted label err f df = Inr df'" and "c \<noteq> label"
  shows "column_cells df' c = column_cells df c"
proof (cases "label \<in> set (columns df)")
  case True
  then have "df' = df\<lparr>rows := map (\<lambda>r. map2 (\<lambda>l x. if l = label
                                                     then coerce (f (column_cells df label)) x
                                                     else x) (columns df) r) (rows df)\<rparr>"
    using assms(1) by (auto simp: assign_converted_def split: if_splits)
  moreover have "cell_of (zip cs (map2 (\<lambda>l x. if l = label then g x else x) cs r)) c
                 = cell_of (zip cs r) c" for cs r g
    unfolding cell_of_zip_map2 using assms(2) by (simp add: cell_of_def split: option.splits)
  ultimately show ?thesis by (simp add: column_cells_def)
next
  case False
  then show ?thesis using assms(1) by (auto simp: assign_converted_def)
qed

lemma get_datos_tabla_frame:
  assumes ok: "get_datos_tabla dt num raw = Inr df" and ne: "raw \<noteq> []"
  shows "columns df = columnas_meta raw @ columnas_obs raw
       \<and> rows df = concat (map (bloque dt num raw) raw)"
proof -
  define cm where "cm = columnas_meta raw"
  define cv where "cv = columnas_obs raw"
  define df0 where "df0 = tabla_cruda raw"
  from ok ne obtain L where ex: "explode raw = Inr L"
    by (auto simp: get_datos_tabla_def split: sum.splits)
  from ok ne ex tabla_cruda_built[OF ex] obtain df1 where
    s1: "assign_converted ''Fecha'' ValueError dt df0 = Inr df1" and
    s2: "assign_converted ''Valor'' TypeError num df1 = Inr df"
    by (auto simp: get_datos_tabla_def cols_meta_eq df0_def Let_def split: sum.splits)
  have c0: "columns df0 = cm @ cv" by (simp add: df0_def tabla_cruda_def cm_def cv_def)
  have len0: "\<forall>r \<in> set (rows df0). length r = length (columns df0)"
    by (auto simp: df0_def tabla_cruda_def fila_cruda_def)
  from assign_converted_Inr[OF s1 len0] have
    c1: "columns df1 = cm @ cv" and
    r1: "rows df1 = map (\<lambda>r. map2 (\<lambda>l x. if l = ''Fecha''
                                             then coerce (dt (column_cells df0 ''Fecha'')) x
                                             else x) (cm @ cv) r)
                        (rows df0)"
    by (simp_all add: c0)
  have v1: "column_cells df1 ''Valor'' = column_cells df0 ''Valor''"
    by (rule assign_converted_other[OF s1]) simp
  have len1: "\<forall>r \<in> set (rows df1). length r = length (columns df1)"
    unfolding r1 c1 using len0 c0 by auto
  note a2 = assign_converted_Inr[OF s2 len1, unfolded c1 v1]
  have c2: "columns df = cm @ cv" using a2 by (rule conjunct1)
  have r2: "rows df = map (\<lambda>r. map2 (\<lambda>l x. if l = ''Valor''
                                            then coerce (num (column_cells df0 ''Valor'')) x
                                            else x) (cm @ cv) r)
                       (rows df1)"
    using a2 by (rule conjunct2)
  have row: "map2 (\<lambda>l x. if l = ''Valor'' then coerce (num (column_cells df0 ''Valor'')) x
                          else x) (cm @ cv)
               (map2 (\<lambda>l x. if l = ''Fecha'' then coerce (dt (column_cells df0 ''Fecha'')) x
                             else x) (cm @ cv)
                  (fila_cruda raw s d))
             = fila_aplanada dt num raw s d" for s d
  proof -
    have a: "map2 (\<lambda>l x. if l = ''Fecha'' then coerce (dt (column_cells df0 ''Fecha'')) x
                           else x) (cm @ cv) (fila_cruda raw s d)
             = map (\<lambda>c. if c = ''Fecha''
                         then coerce (dt (column_cells df0 ''Fecha'')) (celda_meta raw s c)
                         else celda_meta raw s c) cm
               @ map (\<lambda>c. if c = ''Fecha''
                           then coerce (dt (column_cells df0 ''Fecha'')) (celda_obs raw d c)
                           else celda_obs raw d c) cv"
      by (simp add: fila_cruda_def cm_def[symmetric] cv_def[symmetric] map2_same)
    show ?thesis unfolding a
      by (simp add: map2_same fila_aplanada_def convertir_def cm_def cv_def df0_def)
  qed
  have r0: "rows df0 = concat (map (\<lambda>s. map (fila_cruda raw s) (dicts_de s)) raw)"
    by (simp add: df0_def tabla_cruda_def)
  have "rows df = concat (map (\<lambda>s. map (fila_aplanada dt num raw s) (dicts_de s)) raw)"
    unfolding r2 r1 r0 by (simp add: map_concat comp_def row)
  then show ?thesis using c2 by (simp add: bloque_def[abs_def] cm_def cv_def)
qed

lemma get_datos_tabla_empty: "get_datos_tabla dt num [] = Inr empty_frame"
  by (simp add: get_datos_tabla_def)

lemma get_datos_tabla_nil: "get_datos_tabla dt num [] = Inr df \<Longrightarrow> rows df = [] \<and> columns df = []"
  by (auto simp: get_datos_tabla_def empty_frame_def)

lemma length_bloque: "length (bloque dt num raw s) = max 1 (length (observaciones_de s))"
  by (cases "observaciones_de s") (simp_all add: bloque_def dicts_de_def)

lemma get_datos_tabla_count:
  assumes "get_datos_tabla dt num raw = Inr df"
  shows "length (rows df) = sum_list (map (\<lambda>s. max 1 (length (observaciones_de s))) raw)"
proof (cases "raw = []")
  case True
  then show ?thesis using assms get_datos_tabla_nil by auto
next
  case False
  from get_datos_tabla_frame[OF assms False]
  have "rows df = concat (map (bloque dt num raw) raw)" by simp
  then show ?thesis by (simp add: length_concat comp_def length_bloque)
qed

subsection \<open>Row count and series without observations\<close>

text \<open>
  Claim C1. The row count of the flattened table is not the sum of the lengths of the
  observation sequences: for the response holding one series whose \<open>Data\<close> is the empty
  list, that sum is 0, and \<open>get_datos_tabla\<close> returns a table of one row. (By
  \<open>get_datos_tabla_count\<close> every series without observations counts for one row; by
  \<open>get_datos_tabla_empty\<close> the empty response gives the empty table.)
\<close>

theorem row_count_empty_series:
  "get_datos_tabla dt num
     [\<lparr>s_meta = [(''Nombre'', JStr ''S1''), (''COD'', JStr ''C1'')], s_data = Some []\<rparr>]
     = Inr \<lparr>columns = [''Nombre'', ''COD''], rows = [[JStr ''S1'', JStr ''C1'']]\<rparr>
   \<and> sum_list (map (\<lambda>s. length (observaciones_de s))
         [\<lparr>s_meta = [(''Nombre'', JStr ''S1''), (''COD'', JStr ''C1'')], s_data = Some []\<rparr>]) = 0"
  by (simp add: get_datos_tabla_def explode_def df_series_columns_def serie_keys_def
      explode_row_def frame_rows_def column_of_def stored_def
      float64_column_def float_of_int_exact json_normalize_def simple_json_normalize_def DataFrame_def cell_of_def
      concat_axis1_def assign_converted_def observaciones_de_def)

text \<open>
  Claim C2. A series whose \<open>Data\<close> is the empty list does contribute a row to the table
  of \<open>get_datos_tabla\<close>: the row carries the series' metadata and a missing value in
  every observation column. Here the first series has no observation and the second has
  one; the table has two rows, and the missing cells make the two observation columns
  \<open>float64\<close> columns.
\<close>

theorem empty_series_row:
  "get_datos_tabla dt num
     [\<lparr>s_meta = [(''Nombre'', JStr ''S1'')], s_data = Some []\<rparr>,
      \<lparr>s_meta = [(''Nombre'', JStr ''S2'')],
        s_data = Some [[(''FK_Periodo'', JInt 1), (''Anyo'', JInt 2020)]]\<rparr>]
     = Inr \<lparr>columns = [''Nombre'', ''FK_Periodo'', ''Anyo''],
              rows = [[JStr ''S1'', JNull, JNull], [JStr ''S2'', JFloat 1, JFloat 2020]]\<rparr>"
  by (simp add: get_datos_tabla_def explode_def df_series_columns_def serie_keys_def
      explode_row_def frame_rows_def column_of_def stored_def
      float64_column_def float_of_int_exact json_normalize_def simple_json_normalize_def normalise_json_ordered_def
      DataFrame_def cell_of_def concat_axis1_def assign_converted_def)

subsection \<open>Order and metadata\<close>

text \<open>
  Claim C3. Whenever \<open>get_datos_tabla\<close> returns a table, its rows are the blocks of the
  series in the order of the response, and the block of a series lists its observations
  in their order (\<open>bloque\<close> maps over \<open>dicts_de\<close>, the flattened observations of
  \<open>observaciones_de\<close>).
\<close>

theorem flatten_order:
  assumes "get_datos_tabla dt num raw = Inr df"
  shows "rows df = concat (map (bloque dt num raw) raw)"
proof (cases "raw = []")
  case True
  then show ?thesis using assms get_datos_tabla_nil by auto
next
  case False
  from get_datos_tabla_frame[OF assms False] show ?thesis by simp
qed

theorem flatten_order_witness:
  "get_datos_tabla (\<lambda>col x. x) (\<lambda>col x. x)
     [\<lparr>s_meta = [(''Nombre'', JStr ''S1'')],
        s_data = Some [[(''Anyo'', JInt 2001)], [(''Anyo'', JInt 2002)]]\<rparr>,
      \<lparr>s_meta = [(''Nombre'', JStr ''S2'')], s_data = Some [[(''Anyo'', JInt 2003)]]\<rparr>]
     = Inr \<lparr>columns = [''Nombre'', ''Anyo''],
              rows = [[JStr ''S1'', JInt 2001], [JStr ''S1'', JInt 2002],
                      [JStr ''S2'', JInt 2003]]\<rparr>
   \<and> concat (map (bloque (\<lambda>col x. x) (\<lambda>col x. x)
        [\<lparr>s_meta = [(''Nombre'', JStr ''S1'')],
           s_data = Some [[(''Anyo'', JInt 2001)], [(''Anyo'', JInt 2002)]]\<rparr>,
         \<lparr>s_meta = [(''Nombre'', JStr ''S2'')], s_data = Some [[(''Anyo'', JInt 2003)]]\<rparr>])
        [\<lparr>s_meta = [(''Nombre'', JStr ''S1'')],
           s_data = Some [[(''Anyo'', JInt 2001)], [(''Anyo'', JInt 2002)]]\<rparr>,
         \<lparr>s_meta = [(''Nombre'', JStr ''S2'')], s_data = Some [[(''Anyo'', JInt 2003)]]\<rparr>])
     = [[JStr ''S1'', JInt 2001], [JStr ''S1'', JInt 2002], [JStr ''S2'', JInt 2003]]"
proof -
  have h: "get_datos_tabla (\<lambda>col x. x) (\<lambda>col x. x)
     [\<lparr>s_meta = [(''Nombre'', JStr ''S1'')],
        s_data = Some [[(''Anyo'', JInt 2001)], [(''Anyo'', JInt 2002)]]\<rparr>,
      \<lparr>s_meta = [(''Nombre'', JStr ''S2'')], s_data = Some [[(''Anyo'', JInt 2003)]]\<rparr>]
     = Inr \<lparr>columns = [''Nombre'', ''Anyo''],
              rows = [[JStr ''S1'', JInt 2001], [JStr ''S1'', JInt 2002],
                      [JStr ''S2'', JInt 2003]]\<rparr>"
    by (simp add: get_datos_tabla_def explode_def df_series_columns_def serie_keys_def
        explode_row_def frame_rows_def column_of_def stored_def
      float64_column_def float_of_int_exact json_normalize_def simple_json_normalize_def
        normalise_json_ordered_def DataFrame_def cell_of_def concat_axis1_def
        assign_converted_def)
  show ?thesis using flatten_order[OF h] h by simp
qed

text \<open>
  Claim C4, as the code has it. Whenever \<open>get_datos_tabla\<close> returns a table, the table
  begins with the metadata columns, every field of every series other than \<open>Data\<close> has
  its metadata column, and every row of the block of a series \<open>s\<close> holds under each
  metadata column the value \<open>s\<close> has for that field (missing when \<open>s\<close> has no such
  field), the same cells in all rows of \<open>s\<close>; with two exceptions. The value is held as
  the column stores it (\<open>celda_meta\<close>): an integer in a \<open>float64\<close> column is held as a
  float. And lines 67 to 72 convert every column labelled \<open>Fecha\<close> or \<open>Valor\<close>, a
  metadata column too, so that under such a column the row holds the converted value of
  the field. Under any other label, in a column that is not a \<open>float64\<close> column, the
  row holds the very value of \<open>s\<close>.
\<close>

theorem metadata_broadcast:
  assumes "get_datos_tabla dt num raw = Inr df"
  shows "rows df = concat (map (bloque dt num raw) raw)
       \<and> take (length (columnas_meta raw)) (columns df) = columnas_meta raw
       \<and> (\<forall>s \<in> set raw. \<forall>r \<in> set (bloque dt num raw s).
            take (length (columnas_meta raw)) r
              = map (\<lambda>c. convertir dt num raw c (celda_meta raw s c)) (columnas_meta raw))
       \<and> (\<forall>s \<in> set raw. \<forall>k \<in> fst ` set (s_meta s).
            k \<noteq> ''Data'' \<longrightarrow> k \<in> set (columnas_meta raw))
       \<and> (\<forall>s \<in> set raw. \<forall>c \<in> set (columnas_meta raw).
            c \<noteq> ''Fecha'' \<longrightarrow> c \<noteq> ''Valor''
            \<longrightarrow> \<not> float64_column (column_of (map s_meta raw) c)
            \<longrightarrow> convertir dt num raw c (celda_meta raw s c) = cell_of (s_meta s) c)"
proof -
  have rws: "rows df = concat (map (bloque dt num raw) raw)"
  proof (cases "raw = []")
    case True
    then show ?thesis using assms get_datos_tabla_nil by auto
  next
    case False
    from get_datos_tabla_frame[OF assms False] show ?thesis by simp
  qed
  have cols: "take (length (columnas_meta raw)) (columns df) = columnas_meta raw"
  proof (cases "raw = []")
    case True
    then show ?thesis using assms get_datos_tabla_nil by (auto simp: columnas_meta_def)
  next
    case False
    from get_datos_tabla_frame[OF assms False] show ?thesis by simp
  qed
  have blk: "\<forall>s \<in> set raw. \<forall>r \<in> set (bloque dt num raw s).
            take (length (columnas_meta raw)) r
              = map (\<lambda>c. convertir dt num raw c (celda_meta raw s c)) (columnas_meta raw)"
    by (auto simp: bloque_def fila_aplanada_def)
  have keys: "\<forall>s \<in> set raw. \<forall>k \<in> fst ` set (s_meta s).
            k \<noteq> ''Data'' \<longrightarrow> k \<in> set (columnas_meta raw)"
    by (auto simp: columnas_meta_def set_unique_labels)
  have same: "\<forall>s \<in> set raw. \<forall>c \<in> set (columnas_meta raw).
            c \<noteq> ''Fecha'' \<longrightarrow> c \<noteq> ''Valor''
            \<longrightarrow> \<not> float64_column (column_of (map s_meta raw) c)
            \<longrightarrow> convertir dt num raw c (celda_meta raw s c) = cell_of (s_meta s) c"
    by (simp add: convertir_def celda_meta_def stored_def)
  show ?thesis using rws cols blk keys same by blast
qed

theorem metadata_broadcast_witness:
  "get_datos_tabla (\<lambda>col x. x) (\<lambda>col x. x)
     [\<lparr>s_meta = [(''Nombre'', JStr ''S1''), (''COD'', JStr ''C1'')],
        s_data = Some [[(''Anyo'', JInt 2001)], [(''Anyo'', JInt 2002)]]\<rparr>,
      \<lparr>s_meta = [(''Nombre'', JStr ''S2''), (''Unidad'', JStr ''U2'')],
        s_data = Some [[(''Anyo'', JInt 2003)]]\<rparr>]
     = Inr \<lparr>columns = [''Nombre'', ''COD'', ''Unidad'', ''Anyo''],
              rows = [[JStr ''S1'', JStr ''C1'', JNull, JInt 2001],
                      [JStr ''S1'', JStr ''C1'', JNull, JInt 2002],
                      [JStr ''S2'', JNull, JStr ''U2'', JInt 2003]]\<rparr>
   \<and> take (length (columnas_meta
        [\<lparr>s_meta = [(''Nombre'', JStr ''S1''), (''COD'', JStr ''C1'')],
           s_data = Some [[(''Anyo'', JInt 2001)], [(''Anyo'', JInt 2002)]]\<rparr>,
         \<lparr>s_meta = [(''Nombre'', JStr ''S2''), (''Unidad'', JStr ''U2'')],
           s_data = Some [[(''Anyo'', JInt 2003)]]\<rparr>]))
        [''Nombre'', ''COD'', ''Unidad'', ''Anyo''] = [''Nombre'', ''COD'', ''Unidad'']"
proof -
  have h: "get_datos_tabla (\<lambda>col x. x) (\<lambda>col x. x)
     [\<lparr>s_meta = [(''Nombre'', JStr ''S1''), (''COD'', JStr ''C1'')],
        s_data = Some [[(''Anyo'', JInt 2001)], [(''Anyo'', JInt 2002)]]\<rparr>,
      \<lparr>s_meta = [(''Nombre'', JStr ''S2''), (''Unidad'', JStr ''U2'')],
        s_data = Some [[(''Anyo'', JInt 2003)]]\<rparr>]
     = Inr \<lparr>columns = [''Nombre'', ''COD'', ''Unidad'', ''Anyo''],
              rows = [[JStr ''S1'', JStr ''C1'', JNull, JInt 2001],
                      [JStr ''S1'', JStr ''C1'', JNull, JInt 2002],
                      [JStr ''S2'', JNull, JStr ''U2'', JInt 2003]]\<rparr>"
    by (simp add: get_datos_tabla_def explode_def df_series_columns_def serie_keys_def
        explode_row_def frame_rows_def column_of_def stored_def float64_column_def
        json_normalize_def simple_json_normalize_def
        normalise_json_ordered_def DataFrame_def cell_of_def concat_axis1_def
        assign_converted_def)
  have "take (length (columnas_meta
        [\<lparr>s_meta = [(''Nombre'', JStr ''S1''), (''COD'', JStr ''C1'')],
           s_data = Some [[(''Anyo'', JInt 2001)], [(''Anyo'', JInt 2002)]]\<rparr>,
         \<lparr>s_meta = [(''Nombre'', JStr ''S2''), (''Unidad'', JStr ''U2'')],
           s_data = Some [[(''Anyo'', JInt 2003)]]\<rparr>]))
        (columns \<lparr>columns = [''Nombre'', ''COD'', ''Unidad'', ''Anyo''],
              rows = [[JStr ''S1'', JStr ''C1'', JNull, JInt 2001],
                      [JStr ''S1'', JStr ''C1'', JNull, JInt 2002],
                      [JStr ''S2'', JNull, JStr ''U2'', JInt 2003]]\<rparr>)
        = columnas_meta
        [\<lparr>s_meta = [(''Nombre'', JStr ''S1''), (''COD'', JStr ''C1'')],
           s_data = Some [[(''Anyo'', JInt 2001)], [(''Anyo'', JInt 2002)]]\<rparr>,
         \<lparr>s_meta = [(''Nombre'', JStr ''S2''), (''Unidad'', JStr ''U2'')],
           s_data = Some [[(''Anyo'', JInt 2003)]]\<rparr>]"
    using metadata_broadcast[OF h] by blast
  then show ?thesis using h by (simp add: columnas_meta_def)
qed

text \<open>
  The claim as stated fails in both ways. A series whose own field \<open>Valor\<close> is the text
  \<open>abc\<close> has its metadata column converted by \<open>to_numeric\<close>, which gives the missing
  value for that text, so that its row does not carry the series' value. And a series
  whose field \<open>Id\<close> is the integer 9007199254740993, next to a series without that
  field, has the \<open>float64\<close> value 9007199254740992.0 in its row.
\<close>

theorem metadata_converted_counterexample:
  "get_datos_tabla (\<lambda>col x. x) (\<lambda>col x. JNull)
     [\<lparr>s_meta = [(''Nombre'', JStr ''S1''), (''Valor'', JStr ''abc'')],
        s_data = Some [[(''Anyo'', JInt 2001)]]\<rparr>]
     = Inr \<lparr>columns = [''Nombre'', ''Valor'', ''Anyo''],
              rows = [[JStr ''S1'', JNull, JInt 2001]]\<rparr>
   \<and> cell_of [(''Nombre'', JStr ''S1''), (''Valor'', JStr ''abc'')] ''Valor'' = JStr ''abc''
   \<and> get_datos_tabla (\<lambda>col x. x) (\<lambda>col x. x)
     [\<lparr>s_meta = [(''Nombre'', JStr ''S1''), (''Id'', JInt 9007199254740993)],
        s_data = Some [[(''Anyo'', JInt 2001)]]\<rparr>,
      \<lparr>s_meta = [(''Nombre'', JStr ''S2'')], s_data = Some [[(''Anyo'', JInt 2002)]]\<rparr>]
     = Inr \<lparr>columns = [''Nombre'', ''Id'', ''Anyo''],
              rows = [[JStr ''S1'', JFloat 9007199254740992, JInt 2001],
                      [JStr ''S2'', JNull, JInt 2002]]\<rparr>"
proof -
  have "bit_length (nat \<bar>9007199254740993\<bar>) = Suc 53"
    by (rule bit_length_eq) simp_all
  then have "float_of_int 9007199254740993 = 9007199254740992"
    by (simp add: float_of_int_def Let_def)
  then show ?thesis
    by (simp add: get_datos_tabla_def explode_def df_series_columns_def serie_keys_def
        explode_row_def frame_rows_def column_of_def stored_def float64_column_def
        json_normalize_def simple_json_normalize_def normalise_json_ordered_def
        DataFrame_def cell_of_def concat_axis1_def assign_converted_def coerce_def)
qed

subsection \<open>Missing fields\<close>

lemma assign_converted_ok:
  "count_list (columns df) label \<le> 1 \<Longrightarrow>
     \<exists>df'. assign_converted label err f df = Inr df' \<and> columns df' = columns df"
  by (auto simp: assign_converted_def)

lemma get_datos_tabla_succeeds:
  assumes ne: "raw \<noteq> []" and dat: "\<exists>s \<in> set raw. s_data s \<noteq> None"
    and fecha: "count_list (columnas_meta raw @ columnas_obs raw) ''Fecha'' \<le> 1"
    and valor: "count_list (columnas_meta raw @ columnas_obs raw) ''Valor'' \<le> 1"
  shows "\<exists>df. get_datos_tabla dt num raw = Inr df"
proof -
  from dat obtain s where s: "s \<in> set raw" "s_data s \<noteq> None" by blast
  have "''Data'' \<in> set (serie_keys s)"
    using s(2) by (cases "s_data s") (simp_all add: serie_keys_def)
  then have "''Data'' \<in> set (concat (map serie_keys raw))"
    using s(1) by auto
  then obtain L where ex: "explode raw = Inr L"
    by (simp add: explode_def df_series_columns_def set_unique_labels)
  have run: "get_datos_tabla dt num raw =
      (case assign_converted ''Fecha'' ValueError dt (tabla_cruda raw) of
         Inl e \<Rightarrow> Inl e
       | Inr df' \<Rightarrow> assign_converted ''Valor'' TypeError num df')"
    using ne ex tabla_cruda_built[OF ex] by (simp add: get_datos_tabla_def cols_meta_eq Let_def)
  have cols: "columns (tabla_cruda raw) = columnas_meta raw @ columnas_obs raw"
    by (simp add: tabla_cruda_def)
  from assign_converted_ok[of "tabla_cruda raw" "''Fecha''" ValueError dt] fecha cols
  obtain df1 where 1: "assign_converted ''Fecha'' ValueError dt (tabla_cruda raw) = Inr df1"
    and c1: "columns df1 = columns (tabla_cruda raw)" by auto
  from assign_converted_ok[of df1 "''Valor''" TypeError num] valor cols c1
  obtain df2 where 2: "assign_converted ''Valor'' TypeError num df1 = Inr df2" by auto
  show ?thesis using run 1 2 by simp
qed

lemma filas_serie_all_ok:
  "filas_serie serie ds acc = Inr out \<Longrightarrow> \<forall>d \<in> set ds. \<exists>f. fila serie d = Inr f"
  by (induction ds arbitrary: acc) (auto split: sum.splits)

lemma filas_datos_all_ok:
  "filas_datos series acc = Inr out \<Longrightarrow>
     \<forall>serie \<in> set series. \<forall>d \<in> set (observaciones serie). \<exists>f. fila serie d = Inr f"
proof (induction series arbitrary: acc)
  case Nil
  then show ?case by simp
next
  case (Cons serie rest)
  from Cons.prems obtain dv ds mid where
    dv: "dict_get serie ''Data'' (JArr []) = Inr dv" and ds: "iter dv = Inr ds" and
    mid: "filas_serie serie ds acc = Inr mid" and out: "filas_datos rest mid = Inr out"
    by (auto split: sum.splits)
  from filas_serie_Inr[OF mid] have objs: "\<forall>d \<in> set ds. \<exists>kvs. d = JObj kvs" by blast
  have "ds = observaciones serie" by (rule iter_observaciones[OF dv ds objs])
  then have "\<forall>d \<in> set (observaciones serie). \<exists>f. fila serie d = Inr f"
    using filas_serie_all_ok[OF mid] by simp
  then show ?case using Cons.IH[OF out] by simp
qed

lemma fila_missing:
  assumes "map_of kvs ''Nombre'' = None \<or> map_of kvs ''COD'' = None
         \<or> map_of okvs ''FK_Periodo'' = None \<or> map_of okvs ''Anyo'' = None
         \<or> map_of okvs ''Valor'' = None"
  shows "\<exists>e. fila (JObj kvs) (JObj okvs) = Inl e"
proof (cases "fila (JObj kvs) (JObj okvs)")
  case (Inl e)
  then show ?thesis by blast
next
  case (Inr f)
  then have "getitem (JObj kvs) ''Nombre'' \<noteq> Inl (KeyError ''Nombre'')"
    and "getitem (JObj kvs) ''COD'' \<noteq> Inl (KeyError ''COD'')"
    and "getitem (JObj okvs) ''FK_Periodo'' \<noteq> Inl (KeyError ''FK_Periodo'')"
    and "getitem (JObj okvs) ''Anyo'' \<noteq> Inl (KeyError ''Anyo'')"
    and "getitem (JObj okvs) ''Valor'' \<noteq> Inl (KeyError ''Valor'')"
    unfolding fila_def by (auto split: sum.splits)
  then show ?thesis using assms by auto
qed

lemma missing_field_raises_whole:
  assumes "JObj kvs \<in> set series" and "JObj okvs \<in> set (observaciones (JObj kvs))"
    and "map_of kvs ''Nombre'' = None \<or> map_of kvs ''COD'' = None
         \<or> map_of okvs ''FK_Periodo'' = None \<or> map_of okvs ''Anyo'' = None
         \<or> map_of okvs ''Valor'' = None"
  shows "\<exists>e. descargar_tabla_ine_json (JArr series) = Inl e"
proof -
  obtain e where e: "fila (JObj kvs) (JObj okvs) = Inl e"
    using fila_missing[OF assms(3)] by blast
  show ?thesis
  proof (cases "filas_datos series []")
    case (Inl e')
    then show ?thesis by (simp add: descargar_tabla_ine_json_def)
  next
    case (Inr out)
    from filas_datos_all_ok[OF Inr] assms(1,2) e show ?thesis by fastforce
  qed
qed

text \<open>
  Claim C6. A missing field does fail the whole operation. In the helper script a series
  that has one observation and no \<open>COD\<close> makes \<open>descargar_tabla_ine_json\<close> raise
  \<open>KeyError\<close> and return no table (so does any of the five indexed fields:
  \<open>missing_field_raises_whole\<close>). In \<open>get_datos_tabla\<close> a response in which no series
  has a \<open>Data\<close> field makes \<open>explode\<close> raise \<open>KeyError\<close>.
\<close>

theorem missing_field_raises:
  "descargar_tabla_ine_json
     (JArr [JObj [(''Nombre'', JStr ''S1''),
                  (''Data'', JArr [JObj [(''FK_Periodo'', JInt 1), (''Anyo'', JInt 2024),
                                         (''Valor'', JInt 3)]])]])
     = Inl (KeyError ''COD'')
   \<and> get_datos_tabla dt num
       [\<lparr>s_meta = [(''Nombre'', JStr ''S1''), (''COD'', JStr ''C1'')], s_data = None\<rparr>]
     = Inl (KeyError ''Data'')"
  by (simp add: descargar_tabla_ine_json_def fila_def strip_def isspace_def
      get_datos_tabla_def explode_def df_series_columns_def serie_keys_def)

subsection \<open>The two conversions\<close>

text \<open>
  Claim C5. The transform does abort in lines 67 to 72: when \<open>Fecha\<close> (or \<open>Valor\<close>) is
  a field of the series and of its observations, the label names two columns of the
  concatenated frame, \<open>df["Fecha"]\<close> is a DataFrame and \<open>to_datetime\<close> raises
  \<open>ValueError\<close> (\<open>to_numeric\<close> raises \<open>TypeError\<close>), whatever the converters do with a
  single cell and although \<open>errors="coerce"\<close> is passed.
\<close>

theorem duplicate_label_aborts:
  "get_datos_tabla dt num
     [\<lparr>s_meta = [(''Nombre'', JStr ''S1''), (''Fecha'', JInt 0)],
        s_data = Some [[(''Fecha'', JInt 0), (''Valor'', JStr ''12.5'')]]\<rparr>]
     = Inl ValueError
   \<and> get_datos_tabla dt num
     [\<lparr>s_meta = [(''Nombre'', JStr ''S1''), (''Valor'', JStr ''N/A'')],
        s_data = Some [[(''Fecha'', JInt 0), (''Valor'', JStr ''12.5'')]]\<rparr>]
     = Inl TypeError"
  by (simp add: get_datos_tabla_def explode_def df_series_columns_def serie_keys_def
      explode_row_def frame_rows_def column_of_def stored_def
      float64_column_def float_of_int_exact json_normalize_def simple_json_normalize_def normalise_json_ordered_def
      DataFrame_def cell_of_def concat_axis1_def assign_converted_def)

section \<open>Properties of the commands\<close>

lemma tablas_empty_response:
  "cmd_tablas [] = Inr [Mensaje ''No se encontraron tablas para la operacion.'']
   \<and> exit_status (cmd_tablas []) = 0"
  by (simp add: cmd_tablas_def get_tablas_def empty_frame_def df_empty_def exit_status_def)

lemma operaciones_no_match_example:
  "cmd_operaciones (\<lambda>pat. Some (\<lambda>s. False)) (Some ''zzz_no_match'')
     [\<lparr>op_id = 25, op_codigo = ''IPC'', op_nombre = ''Indice de Precios de Consumo''\<rparr>]
   = Inr [Mensaje ''No se encontraron operaciones.'']"
  by (simp add: cmd_operaciones_def get_operaciones_def DataFrame_def frame_rows_def
      column_of_def stored_def float64_column_def getitem_columns_def
      operacion_dict_def cell_of_def str_contains_def column_cells_def boolean_mask_def
      df_empty_def)

text \<open>
  Claim C8. When the API returns the empty sequence, \<open>cmd_operaciones\<close> prints no
  message: selecting the three columns of a frame without columns raises \<open>KeyError\<close>,
  whatever the search text, and the process exits with status 1. (\<open>cmd_tablas\<close>, whose
  \<open>get_tablas\<close> tests for the empty response first, prints its message and exits with 0:
  \<open>tablas_empty_response\<close>.)
\<close>

theorem operaciones_empty_response:
  "cmd_operaciones re_search buscar [] = Inl (KeyError ''Id'')
   \<and> exit_status (cmd_operaciones re_search buscar []) = 1"
  by (simp add: cmd_operaciones_def get_operaciones_def DataFrame_def frame_rows_def
      getitem_columns_def exit_status_def)

lemma vista_previa_rows:
  "vista_previa df = Inr v \<Longrightarrow> length (rows v) \<le> 5 \<and> length (rows v) = min 5 (length (rows df))"
  by (auto simp: vista_previa_def getitem_columns_def head_def Let_def
      split: sum.splits list.splits)

text \<open>
  Claim C9. The preview of \<open>cmd_datos\<close> is \<open>head()\<close> of the table: for six series of
  one observation each it shows the names of the first five, S1 to S5, while the last
  five rows of the table, which the line above the preview announces, are S2 to S6.
\<close>

theorem preview_shows_first_rows:
  "cmd_datos dt num
     [\<lparr>s_meta = [(''Nombre'', JStr ''S1'')], s_data = Some [[(''Anyo'', JInt 2020)]]\<rparr>,
      \<lparr>s_meta = [(''Nombre'', JStr ''S2'')], s_data = Some [[(''Anyo'', JInt 2020)]]\<rparr>,
      \<lparr>s_meta = [(''Nombre'', JStr ''S3'')], s_data = Some [[(''Anyo'', JInt 2020)]]\<rparr>,
      \<lparr>s_meta = [(''Nombre'', JStr ''S4'')], s_data = Some [[(''Anyo'', JInt 2020)]]\<rparr>,
      \<lparr>s_meta = [(''Nombre'', JStr ''S5'')], s_data = Some [[(''Anyo'', JInt 2020)]]\<rparr>,
      \<lparr>s_meta = [(''Nombre'', JStr ''S6'')], s_data = Some [[(''Anyo'', JInt 2020)]]\<rparr>]
   = Inr [Resumen 6 [''Nombre'', ''Anyo'']
            \<lparr>columns = [''Nombre''],
               rows = [[JStr ''S1''], [JStr ''S2''], [JStr ''S3''], [JStr ''S4''],
                       [JStr ''S5'']]\<rparr>]
   \<and> rows (tail \<lparr>columns = [''Nombre''],
                  rows = [[JStr ''S1''], [JStr ''S2''], [JStr ''S3''], [JStr ''S4''],
                          [JStr ''S5''], [JStr ''S6'']]\<rparr>)
     = [[JStr ''S2''], [JStr ''S3''], [JStr ''S4''], [JStr ''S5''], [JStr ''S6'']]"
  by (simp add: cmd_datos_def get_datos_tabla_def explode_def df_series_columns_def
      serie_keys_def explode_row_def frame_rows_def column_of_def stored_def
      float64_column_def float_of_int_exact json_normalize_def simple_json_normalize_def
      normalise_json_ordered_def DataFrame_def cell_of_def concat_axis1_def
      assign_converted_def df_empty_def vista_previa_def getitem_columns_def head_def tail_def)

end
